theory Spec2Isabelle
  imports Main
begin

section \<open>Data model\<close>

text \<open>
  The patient register of \<^verbatim>\<open>patient_management.c\<close>: a singly linked list of
  \<^verbatim>\<open>Patient\<close> structs behind \<^verbatim>\<open>patientHead\<close>, two counters, and the files
  \<^verbatim>\<open>patients.dat\<close>, \<^verbatim>\<open>patients.tmp\<close>, \<^verbatim>\<open>discharged_patients.dat\<close> and
  \<^verbatim>\<open>room_usage.txt\<close>. The linked list is a HOL list (\<open>NULL\<close> is \<open>[]\<close>), a C \<open>int\<close>
  and a \<open>time_t\<close> are mathematical integers (signed overflow is undefined in C and is not
  modelled), a file's content is a \<open>string\<close> (a list of bytes) and a file that does not
  exist is \<open>None\<close>.
\<close>

record Patient =
  patientId :: int
  name :: string
  ageInYears :: int
  diagnosis :: string
  roomNumber :: int
  admissionDate :: int

record DischargedPatient =
  patient :: Patient
  dischargeDate :: int

text \<open>
  Modelled from the spec: the fixed layout of \<^verbatim>\<open>struct Patient\<close>. Its declaration
  (\<^verbatim>\<open>patient_data.h\<close>) is not among the sources, so the size of the struct and its byte
  image are parameters: \<open>fwrite\<close> stores \<open>toBytes p\<close>, and \<open>fread\<close> turns a block of
  \<open>sizeofPatient\<close> bytes into the struct \<open>fromBytes\<close> of it.
\<close>

record layout =
  sizeofPatient :: nat
  toBytes :: "Patient \<Rightarrow> string"
  fromBytes :: "string \<Rightarrow> Patient"

record disk =
  patients_dat :: "string option"
  patients_tmp :: "string option"
  discharged_patients_dat :: "DischargedPatient list option"
  room_usage_txt :: "string option"

text \<open>
  The library calls whose result the source inspects can fail; which of them fail during
  one operation is an input of the model (\<open>True\<close>: the call succeeds). A call whose result
  the source ignores (the \<open>fwrite\<close> of \<^verbatim>\<open>writePatientToFile\<close>, the \<open>fprintf\<close> of
  \<^verbatim>\<open>logRoomUsage\<close>, the \<open>remove\<close> of the temporary file) is taken to succeed.
\<close>

record faults =
  malloc_fails_at :: "nat option"
  fopen_patients_rb :: bool
  fopen_patients_wb :: bool
  fopen_patients_ab :: bool
  fopen_tmp_wb :: bool
  fwrite_tmp_fails_at :: "nat option"
  fclose_tmp :: bool
  remove_patients :: bool
  rename_tmp :: bool
  fopen_discharged_ab :: bool
  fwrite_discharged :: bool
  fopen_room_usage_a :: bool

definition no_faults :: faults where
  "no_faults = \<lparr>malloc_fails_at = None, fopen_patients_rb = True, fopen_patients_wb = True,
     fopen_patients_ab = True, fopen_tmp_wb = True, fwrite_tmp_fails_at = None,
     fclose_tmp = True, remove_patients = True, rename_tmp = True,
     fopen_discharged_ab = True, fwrite_discharged = True, fopen_room_usage_a = True\<rparr>"

record system =
  patientHead :: "Patient list"
  totalPatients :: int
  patientIDCounter :: int
  files :: disk

definition IS_EMPTY :: int where "IS_EMPTY = 0"
definition DEFAULT_ID :: int where "DEFAULT_ID = 1"

section \<open>The linked list\<close>

text \<open>\<^verbatim>\<open>insertPatientAtEndOfList\<close>: the walk to the last node, then the link.\<close>

fun linkAtEnd :: "Patient list \<Rightarrow> Patient \<Rightarrow> Patient list" where
  "linkAtEnd [] d = [d]"
| "linkAtEnd (p # ps) d = p # linkAtEnd ps d"

text \<open>A failed \<open>malloc\<close> returns \<open>NULL\<close>, the empty list.\<close>

definition insertPatientAtEndOfList :: "bool \<Rightarrow> Patient list \<Rightarrow> Patient \<Rightarrow> Patient list" where
  "insertPatientAtEndOfList malloc_ok head d = (if \<not> malloc_ok then [] else linkAtEnd head d)"


fun getPatientFromList :: "int \<Rightarrow> Patient list \<Rightarrow> Patient option" where
  "getPatientFromList i [] = None"
| "getPatientFromList i (p # ps) =
     (if patientId p = i then Some p else getPatientFromList i ps)"

fun maxIdFrom :: "int \<Rightarrow> Patient list \<Rightarrow> int" where
  "maxIdFrom maxId [] = maxId"
| "maxIdFrom maxId (p # ps) =
     maxIdFrom (if patientId p > maxId then patientId p else maxId) ps"

definition computeNextPatientId :: "Patient list \<Rightarrow> int" where
  "computeNextPatientId head = maxIdFrom 0 head + 1"

text \<open>
  The search of \<^verbatim>\<open>removePatientFromSystem\<close>: the first node with the identifier is
  unlinked; \<open>None\<close> when the walk reaches the end of the list.
\<close>

fun unlinkFirst :: "int \<Rightarrow> Patient list \<Rightarrow> Patient list option" where
  "unlinkFirst i [] = None"
| "unlinkFirst i (p # ps) =
     (if patientId p = i then Some ps
      else (case unlinkFirst i ps of None \<Rightarrow> None | Some ps' \<Rightarrow> Some (p # ps')))"


section \<open>Files\<close>

text \<open>A file opened for appending is created when it does not exist.\<close>

definition opened_for_append :: "'a list option \<Rightarrow> 'a list" where
  "opened_for_append f = (case f of None \<Rightarrow> [] | Some c \<Rightarrow> c)"


text \<open>
  The write loop of \<^verbatim>\<open>updatePatientsFile\<close>: the bytes written so far and whether an
  \<open>fwrite\<close> failed; \<open>k\<close> counts the calls. Then the function itself: \<open>remove\<close> of a
  file that does not exist fails with \<open>ENOENT\<close>, which the source lets pass, and any
  other failure of it is reported and the \<open>rename\<close> is tried all the same.
\<close>

fun writeAll :: "layout \<Rightarrow> nat option \<Rightarrow> nat \<Rightarrow> Patient list \<Rightarrow> string \<Rightarrow> string \<times> bool" where
  "writeAll L fails k [] out = (out, False)"
| "writeAll L fails k (p # ps) out =
     (if fails = Some k then (out, True)
      else writeAll L fails (Suc k) ps (out @ toBytes L p))"

definition updatePatientsFile :: "layout \<Rightarrow> faults \<Rightarrow> system \<Rightarrow> system" where
  "updatePatientsFile L F s =
     (if \<not> fopen_tmp_wb F then s
      else
        let (written, failed) = writeAll L (fwrite_tmp_fails_at F) 0 (patientHead s) [];
            write_error = (failed \<or> \<not> fclose_tmp F);
            d1 = (files s)\<lparr>patients_tmp := Some written\<rparr>
        in if \<not> write_error then
             let d2 = (if patients_dat d1 \<noteq> None \<and> remove_patients F
                       then d1\<lparr>patients_dat := None\<rparr> else d1)
             in if rename_tmp F
                then s\<lparr>files := d2\<lparr>patients_dat := patients_tmp d2, patients_tmp := None\<rparr>\<rparr>
                else s\<lparr>files := d2\<rparr>
           else s\<lparr>files := d1\<lparr>patients_tmp := None\<rparr>\<rparr>)"

definition clearBinaryFile :: "faults \<Rightarrow> disk \<Rightarrow> disk" where
  "clearBinaryFile F d = (if \<not> fopen_patients_wb F then d else d\<lparr>patients_dat := Some []\<rparr>)"


section \<open>Formatted input and output of integers\<close>

text \<open>
  \<open>printf("%d")\<close> and \<open>fscanf("%d")\<close> of the C library, on mathematical integers: the
  conversion skips white space, takes an optional sign and then the longest run of decimal
  digits, and fails when there is no digit.
\<close>

definition digit_char :: "nat \<Rightarrow> char" where
  "digit_char n = char_of (48 + n)"

fun dec_digits :: "nat \<Rightarrow> string" where
  "dec_digits n = (if n < 10 then [digit_char n] else dec_digits (n div 10) @ [digit_char (n mod 10)])"

declare dec_digits.simps [simp del]

definition printf_d :: "int \<Rightarrow> string" where
  "printf_d i = (if i < 0 then CHR ''-'' # dec_digits (nat (- i)) else dec_digits (nat i))"






section \<open>Admission\<close>










section \<open>Discharge\<close>

definition confirmDischarge :: "char \<Rightarrow> bool" where
  "confirmDischarge confirm = (confirm = CHR ''y'')"

definition logRoomUsage :: "faults \<Rightarrow> int \<Rightarrow> disk \<Rightarrow> disk" where
  "logRoomUsage F room d =
     (if \<not> fopen_room_usage_a F then d
      else d\<lparr>room_usage_txt :=
               Some (opened_for_append (room_usage_txt d) @ printf_d room @ [CHR 0x0A])\<rparr>)"

text \<open>
  \<^verbatim>\<open>removePatientFromSystem\<close>, called with a pointer to a record of the list (never
  \<open>NULL\<close> at its one call site).
\<close>

definition removePatientFromSystem :: "layout \<Rightarrow> faults \<Rightarrow> Patient \<Rightarrow> system \<Rightarrow> system" where
  "removePatientFromSystem L F p s =
     (case patientHead s of
        [] \<Rightarrow> s
      | current # nextNode \<Rightarrow>
          if patientId current = patientId p
          then updatePatientsFile L F
                 (s\<lparr>patientHead := nextNode, totalPatients := totalPatients s - 1\<rparr>)
          else (case unlinkFirst (patientId p) (patientHead s) of
                  None \<Rightarrow> s
                | Some head' \<Rightarrow>
                    updatePatientsFile L F
                      (s\<lparr>patientHead := head', totalPatients := totalPatients s - 1\<rparr>)))"

text \<open>
  \<^verbatim>\<open>dischargePatient\<close>: the identifier typed, the character typed at the confirmation
  and the time of the discharge are inputs. Opening the archive for appending creates it,
  also when the write that follows fails.
\<close>

record discharge =
  dis_id :: int
  dis_confirm :: char
  dis_time :: int
  dis_faults :: faults

definition dischargePatient :: "layout \<Rightarrow> discharge \<Rightarrow> system \<Rightarrow> system" where
  "dischargePatient L q s =
     (if patientHead s = [] then s
      else
        (case getPatientFromList (dis_id q) (patientHead s) of
           None \<Rightarrow> s
         | Some patientToDischarge \<Rightarrow>
             if confirmDischarge (dis_confirm q) then
               let dischargedPatient =
                     \<lparr>patient = patientToDischarge, dischargeDate = dis_time q\<rparr>;
                   archive = opened_for_append (discharged_patients_dat (files s))
               in if \<not> fopen_discharged_ab (dis_faults q) then s
                  else if \<not> fwrite_discharged (dis_faults q)
                  then s\<lparr>files := (files s)\<lparr>discharged_patients_dat := Some archive\<rparr>\<rparr>
                  else
                    let d1 = (files s)\<lparr>discharged_patients_dat :=
                                          Some (archive @ [dischargedPatient])\<rparr>;
                        d2 = logRoomUsage (dis_faults q) (roomNumber patientToDischarge) d1
                    in removePatientFromSystem L (dis_faults q) patientToDischarge
                         (s\<lparr>files := d2\<rparr>)
             else s))"

section \<open>Loading\<close>

definition clearMemory :: "system \<Rightarrow> system" where
  "clearMemory s = s\<lparr>patientHead := [], totalPatients := IS_EMPTY, patientIDCounter := DEFAULT_ID\<rparr>"

definition initializePatientSystemDefault :: "system \<Rightarrow> system" where
  "initializePatientSystemDefault s =
     s\<lparr>patientHead := [], totalPatients := IS_EMPTY, patientIDCounter := DEFAULT_ID\<rparr>"

text \<open>
  The read loop of \<^verbatim>\<open>initializePatientSystem\<close>: \<open>fread\<close> returns 1 as long as a whole
  block of \<open>sizeofPatient\<close> bytes is left, and the struct read is linked at the end of the
  list. \<open>k\<close> counts the allocations; an allocation that fails ends the load.
\<close>

datatype load_result = Loaded "Patient list" int bool | AllocationFailed

function populateList :: "layout \<Rightarrow> nat option \<Rightarrow> nat \<Rightarrow> string \<Rightarrow> Patient list \<Rightarrow> int \<Rightarrow> bool \<Rightarrow> load_result" where
  "populateList L fails k bytes head loaded foundData =
     (if sizeofPatient L = 0 \<or> length bytes < sizeofPatient L then Loaded head loaded foundData
      else
        let tempPatient = fromBytes L (take (sizeofPatient L) bytes);
            head' = insertPatientAtEndOfList (fails \<noteq> Some k) head tempPatient
        in if head' = [] then AllocationFailed
           else populateList L fails (Suc k) (drop (sizeofPatient L) bytes) head' (loaded + 1) True)"
  by pat_completeness auto
termination
  by (relation "measure (\<lambda>(L, fails, k, bytes, head, loaded, foundData). length bytes)") auto

declare populateList.simps [simp del]

definition initializePatientSystem :: "layout \<Rightarrow> faults \<Rightarrow> system \<Rightarrow> system" where
  "initializePatientSystem L F s0 =
     (let s = clearMemory s0 in
      case (if fopen_patients_rb F then patients_dat (files s) else None) of
        None \<Rightarrow> initializePatientSystemDefault s
      | Some bytes \<Rightarrow>
          if bytes = [] then initializePatientSystemDefault s
          else
            (case populateList L (malloc_fails_at F) 0 bytes [] 0 False of
               AllocationFailed \<Rightarrow> initializePatientSystemDefault s
             | Loaded head loaded foundData \<Rightarrow>
                 if \<not> foundData
                 then initializePatientSystemDefault (s\<lparr>files := clearBinaryFile F (files s)\<rparr>)
                 else s\<lparr>patientHead := head, totalPatients := loaded,
                        patientIDCounter := computeNextPatientId head\<rparr>))"


section \<open>Reports by timeframe\<close>

text \<open>
  \<open>localtime\<close> depends on the time zone of the machine and is a parameter; of a
  \<^verbatim>\<open>struct tm\<close> the source reads three fields. \<open>difftime\<close> of two times in seconds is
  their difference, and the conversion of \<open>secondsDiff / 3600\<close> to \<open>int\<close> truncates
  towards zero (for the differences of real time stamps the quotient of the two doubles
  truncates to the same integer as the exact quotient).
\<close>

record tm =
  tm_year :: int
  tm_mon :: int
  tm_yday :: int

definition hoursDiff :: "int \<Rightarrow> int \<Rightarrow> int" where
  "hoursDiff now t =
     (let secondsDiff = now - t
      in if 0 \<le> secondsDiff then secondsDiff div 3600 else - ((- secondsDiff) div 3600))"

text \<open>The test both loops make on a record's time stamp (1 daily, 2 weekly, 3 monthly).\<close>

definition inTimeframe :: "(int \<Rightarrow> tm) \<Rightarrow> int \<Rightarrow> int \<Rightarrow> int \<Rightarrow> bool" where
  "inTimeframe localtime timeframe now t =
     (let currentTime = localtime now;
          admissionTime = localtime t;
          past24Hours = (hoursDiff now t \<le> 24);
          sameWeek = (tm_year admissionTime = tm_year currentTime \<and>
                      tm_yday currentTime - tm_yday admissionTime < 7);
          sameMonth = (tm_year admissionTime = tm_year currentTime \<and>
                       tm_mon admissionTime = tm_mon currentTime)
      in (timeframe = 1 \<and> past24Hours) \<or> (timeframe = 2 \<and> sameWeek) \<or>
         (timeframe = 3 \<and> sameMonth))"

fun countFrom :: "(int \<Rightarrow> tm) \<Rightarrow> int \<Rightarrow> int \<Rightarrow> int \<Rightarrow> Patient list \<Rightarrow> int" where
  "countFrom localtime timeframe now count [] = count"
| "countFrom localtime timeframe now count (p # ps) =
     countFrom localtime timeframe now
       (if inTimeframe localtime timeframe now (admissionDate p) then count + 1 else count) ps"

definition countPatientsByTimeframe :: "(int \<Rightarrow> tm) \<Rightarrow> int \<Rightarrow> int \<Rightarrow> Patient list \<Rightarrow> int" where
  "countPatientsByTimeframe localtime timeframe now head =
     (if head = [] then 0 else countFrom localtime timeframe now 0 head)"

text \<open>
  \<^verbatim>\<open>printFormattedReport\<close>, after its header: the line that says that nobody was
  admitted, or one line for each record of the list that passes the test.
\<close>

datatype report_body = NoPatientsAdmitted | PatientLines "Patient list"

fun linesFrom :: "(int \<Rightarrow> tm) \<Rightarrow> int \<Rightarrow> int \<Rightarrow> Patient list \<Rightarrow> Patient list" where
  "linesFrom localtime timeframe now [] = []"
| "linesFrom localtime timeframe now (p # ps) =
     (if inTimeframe localtime timeframe now (admissionDate p)
      then p # linesFrom localtime timeframe now ps
      else linesFrom localtime timeframe now ps)"

definition printFormattedReport :: "(int \<Rightarrow> tm) \<Rightarrow> int \<Rightarrow> int \<Rightarrow> int \<Rightarrow> Patient list \<Rightarrow> report_body" where
  "printFormattedReport localtime result timeframe now head =
     (if result = 0 then NoPatientsAdmitted
      else PatientLines (linesFrom localtime timeframe now head))"

section \<open>The room usage report\<close>










section \<open>Runs of the register\<close>





definition no_files :: disk where
  "no_files = \<lparr>patients_dat = None, patients_tmp = None, discharged_patients_dat = None,
     room_usage_txt = None\<rparr>"


text \<open>
  A small layout for the worked examples: twelve bytes, one for each number and four for
  each of the two strings, padded with NUL.
\<close>

definition pad :: "nat \<Rightarrow> string \<Rightarrow> string" where
  "pad n s = take n (s @ replicate n (CHR 0x00))"

definition unpad :: "string \<Rightarrow> string" where
  "unpad s = takeWhile (\<lambda>c. c \<noteq> CHR 0x00) s"

definition example_layout :: layout where
  "example_layout =
     \<lparr>sizeofPatient = 12,
      toBytes = (\<lambda>p. [char_of (patientId p)] @ pad 4 (name p) @ [char_of (ageInYears p)] @
                        pad 4 (diagnosis p) @ [char_of (roomNumber p), char_of (admissionDate p)]),
      fromBytes = (\<lambda>b. \<lparr>patientId = of_char (b ! 0), name = unpad (take 4 (drop 1 b)),
                          ageInYears = of_char (b ! 5), diagnosis = unpad (take 4 (drop 6 b)),
                          roomNumber = of_char (b ! 10), admissionDate = of_char (b ! 11)\<rparr>)\<rparr>"



text \<open>The register after one admission into a fresh system, with its file.\<close>

definition jane :: Patient where
  "jane = \<lparr>patientId = 1, name = ''Jane'', ageInYears = 34, diagnosis = ''Frac'',
     roomNumber = 12, admissionDate = 5\<rparr>"

definition ward :: system where
  "ward = \<lparr>patientHead = [jane], totalPatients = 1, patientIDCounter = 2,
     files = no_files\<lparr>patients_dat := Some (toBytes example_layout jane)\<rparr>\<rparr>"








text \<open>
  A layout fits a list of records when the struct has a positive size and each record's
  byte image has that size and reads back as the record. The image of a list of records
  is what \<open>fwrite\<close> of each in turn leaves in a file.
\<close>

definition fits :: "layout \<Rightarrow> Patient list \<Rightarrow> bool" where
  "fits L recs =
     (0 < sizeofPatient L \<and>
      list_all (\<lambda>p. length (toBytes L p) = sizeofPatient L \<and> fromBytes L (toBytes L p) = p) recs)"

definition file_image :: "layout \<Rightarrow> Patient list \<Rightarrow> string" where
  "file_image L recs = concat (map (toBytes L) recs)"

text \<open>The example's file cut off three bytes into a second record.\<close>

definition truncated_ward :: system where
  "truncated_ward =
     ward\<lparr>files := (files ward)\<lparr>patients_dat := Some (file_image example_layout [jane] @ ''xyz'')\<rparr>\<rparr>"

text \<open>
  The archive as a reader finds it, and a discharge that is carried out: the patient is
  in the list, the answer is \<open>y\<close>, and the record is appended to the archive.
\<close>

definition archive :: "system \<Rightarrow> DischargedPatient list" where
  "archive s = opened_for_append (discharged_patients_dat (files s))"









section \<open>Facts about the list functions\<close>

lemma linkAtEnd_append: "linkAtEnd xs d = xs @ [d]"
  by (induction xs) simp_all




section \<open>Discharge asks first\<close>

text \<open>
  Claim C10. A discharge changes the register only when the character read at the
  confirmation is a lower-case \<open>y\<close>: with any other character, whatever identifier was
  typed, the list, the patient count, the identifier counter and the three files
  (\<^verbatim>\<open>patients.dat\<close>, the archive, the room usage log) are what they were. Nothing is
  written before the confirmation.
\<close>

theorem discharge_needs_y:
  "dis_confirm q \<noteq> CHR ''y'' \<Longrightarrow> dischargePatient L q s = s"
  by (simp add: dischargePatient_def confirmDischarge_def split: option.splits)

theorem discharge_needs_y_witness:
  "dis_confirm \<lparr>dis_id = 1, dis_confirm = CHR ''Y'', dis_time = 9, dis_faults = no_faults\<rparr> \<noteq> CHR ''y''
   \<and> getPatientFromList 1 (patientHead ward) = Some jane
   \<and> dischargePatient example_layout
        \<lparr>dis_id = 1, dis_confirm = CHR ''Y'', dis_time = 9, dis_faults = no_faults\<rparr> ward = ward"
  using discharge_needs_y [of "\<lparr>dis_id = 1, dis_confirm = CHR ''Y'', dis_time = 9, dis_faults = no_faults\<rparr>" example_layout ward]
  by (simp add: ward_def jane_def)

section \<open>Admissions\<close>






section \<open>The rewrite of the active-record file\<close>







section \<open>Discharge and the failures of persistence\<close>







section \<open>Loading the active-record file\<close>

lemma populateList_image:
  assumes "fits L recs" and "length partial < sizeofPatient L"
  shows "populateList L None k (file_image L recs @ partial) head n found
           = Loaded (head @ recs) (n + int (length recs)) (found \<or> recs \<noteq> [])"
  using assms(1)
proof (induction recs arbitrary: k head n found)
  case Nil
  with assms(2) show ?case
    by (subst populateList.simps) (simp add: file_image_def)
next
  case (Cons p recs)
  from Cons.prems have sz: "0 < sizeofPatient L"
    and len: "length (toBytes L p) = sizeofPatient L"
    and inv: "fromBytes L (toBytes L p) = p"
    and rest: "fits L recs"
    by (simp_all add: fits_def)
  have bytes: "file_image L (p # recs) @ partial = toBytes L p @ (file_image L recs @ partial)"
    by (simp add: file_image_def)
  have "populateList L None k (file_image L (p # recs) @ partial) head n found
      = populateList L None (Suc k) (file_image L recs @ partial) (head @ [p]) (n + 1) True"
    unfolding bytes using sz len inv
    by (subst populateList.simps)
       (simp add: insertPatientAtEndOfList_def linkAtEnd_append Let_def)
  also have "\<dots> = Loaded ((head @ [p]) @ recs) (n + 1 + int (length recs)) (True \<or> recs \<noteq> [])"
    by (rule Cons.IH [OF rest])
  finally show ?case by simp
qed




lemma load_image:
  assumes "fopen_patients_rb F" and "malloc_fails_at F = None"
    and "fits L recs" and "length partial < sizeofPatient L"
    and "patients_dat (files s) = Some (file_image L recs @ partial)"
    and "recs \<noteq> []"
  shows "initializePatientSystem L F s
           = s\<lparr>patientHead := recs, totalPatients := int (length recs),
               patientIDCounter := computeNextPatientId recs\<rparr>"
proof -
  define bytes where "bytes = file_image L recs @ partial"
  from assms(3,6) have "file_image L recs \<noteq> []"
    by (cases recs) (auto simp: fits_def file_image_def)
  then have ne: "bytes \<noteq> []" by (simp add: bytes_def)
  have p: "populateList L None 0 bytes [] 0 False = Loaded recs (int (length recs)) True"
    unfolding bytes_def
    using populateList_image [OF assms(3,4), of 0 "[]" 0 False] assms(6) by simp
  have d: "patients_dat (files s) = Some bytes"
    using assms(5) by (simp add: bytes_def)
  show ?thesis
    using assms(1,2) ne p d
    by (simp add: initializePatientSystem_def clearMemory_def Let_def)
qed

lemma example_fits_jane: "fits example_layout [jane]"
  by code_simp



text \<open>
  Claim C9. When \<^verbatim>\<open>patients.dat\<close> holds the images of the records \<open>recs\<close> followed by a
  truncated record (at least one byte, fewer than \<open>sizeofPatient\<close>), the load returns and
  the list is exactly \<open>recs\<close>, in the order of the file: the read loop stops at the
  first short block and nothing of the partial record is read into the list.
\<close>

theorem load_stops_at_truncated_record:
  assumes "fopen_patients_rb F" and "malloc_fails_at F = None"
    and "fits L recs"
    and "partial \<noteq> []" and "length partial < sizeofPatient L"
    and "patients_dat (files s) = Some (file_image L recs @ partial)"
  shows "patientHead (initializePatientSystem L F s) = recs
       \<and> totalPatients (initializePatientSystem L F s) = int (length recs)"
proof (cases "recs = []")
  case False
  from load_image [OF assms(1,2,3,5,6) False] show ?thesis by simp
next
  case True
  have p: "populateList L None 0 partial [] 0 False = Loaded [] 0 False"
    using assms(5) by (subst populateList.simps) simp
  have d: "patients_dat (files s) = Some partial"
    using assms(6) True by (simp add: file_image_def)
  show ?thesis
    using assms(1,2,4) True p d
    by (simp add: initializePatientSystem_def initializePatientSystemDefault_def clearMemory_def
          IS_EMPTY_def Let_def)
qed


theorem load_stops_at_truncated_record_witness:
  "fopen_patients_rb no_faults \<and> malloc_fails_at no_faults = None
   \<and> fits example_layout [jane]
   \<and> ''xyz'' \<noteq> [] \<and> length ''xyz'' < sizeofPatient example_layout
   \<and> patients_dat (files truncated_ward) = Some (file_image example_layout [jane] @ ''xyz'')
   \<and> patientHead (initializePatientSystem example_layout no_faults truncated_ward) = [jane]
   \<and> totalPatients (initializePatientSystem example_layout no_faults truncated_ward) = 1"
proof -
  have f: "fopen_patients_rb no_faults" "malloc_fails_at no_faults = None"
    by (simp_all add: no_faults_def)
  have x: "''xyz'' \<noteq> []" "length ''xyz'' < sizeofPatient example_layout"
    by (simp_all add: example_layout_def)
  have d: "patients_dat (files truncated_ward) = Some (file_image example_layout [jane] @ ''xyz'')"
    by (simp add: truncated_ward_def)
  from load_stops_at_truncated_record [OF f example_fits_jane x d]
  have "patientHead (initializePatientSystem example_layout no_faults truncated_ward) = [jane]"
    and "totalPatients (initializePatientSystem example_layout no_faults truncated_ward) = 1"
    by simp_all
  with f example_fits_jane x d show ?thesis by blast
qed

section \<open>Invariants of a run\<close>











section \<open>Rooms\<close>




section \<open>Identifiers\<close>




section \<open>The daily window\<close>

lemma hoursDiff_daily: "hoursDiff now t \<le> 24 \<longleftrightarrow> now - t < 90000"
  by (auto simp: hoursDiff_def Let_def)

lemma inTimeframe_daily: "inTimeframe localtime 1 now t \<longleftrightarrow> now - t < 90000"
  by (simp add: inTimeframe_def Let_def hoursDiff_daily)

text \<open>
  Claim C7. The claim has the daily filter keep a record exactly when it is at most 24
  hours old, as the comment at \<open>past24Hours\<close> says (within the last 24 hours). The source
  truncates the age to whole hours before it compares with 24, so every record less than
  25 hours old passes (\<open>inTimeframe_daily\<close>): a record admitted 24 hours and 30 minutes
  (88200 seconds) before now is counted by \<^verbatim>\<open>countPatientsByTimeframe\<close> and printed by
  \<^verbatim>\<open>printFormattedReport\<close>.
\<close>

theorem daily_report_includes_record_24h30_old:
  "countPatientsByTimeframe localtime 1 now [p\<lparr>admissionDate := now - 88200\<rparr>] = 1
   \<and> printFormattedReport localtime 1 1 now [p\<lparr>admissionDate := now - 88200\<rparr>]
       = PatientLines [p\<lparr>admissionDate := now - 88200\<rparr>]"
  by (simp add: countPatientsByTimeframe_def printFormattedReport_def inTimeframe_daily)

section \<open>The room usage report\<close>




















end
